theory Spec2Isabelle
  imports Main "HOL-Library.Word"
begin

section \<open>The Transit operation: batch evaluator and binding kernel\<close>

text \<open>
  A shallow embedding of \<^verbatim>\<open>transit/transit_op/transit_op.cc\<close>: the sequential
  functor \<^verbatim>\<open>TransitFunctor<CPUDevice, T>\<close> and the kernel \<^verbatim>\<open>TransitOp::Compute\<close>
  that validates the tensors and calls the functor.
\<close>

subsection \<open>Memory, pointers and machine integers\<close>

text \<open>
  The functor receives raw pointers \<^verbatim>\<open>const T* grid, z, r\<close> and \<^verbatim>\<open>T* delta\<close>. Memory is an
  explicit store from cell addresses to values of the element type \<^verbatim>\<open>T\<close> (float or
  double in the source; the functor only moves such values, so \<^verbatim>\<open>T\<close> is a type variable
  and equality on it is equality of bit patterns). A pointer is the address of a cell and
  \<^verbatim>\<open>p[i]\<close> is the cell \<open>p + i\<close>. \<^verbatim>\<open>int\<close> is a 32-bit and \<^verbatim>\<open>int64\<close> a 64-bit two's
  complement word.
\<close>

type_synonym addr = nat
type_synonym 'a heap = "addr \<Rightarrow> 'a"
type_synonym int32 = "32 word"
type_synonym int64 = "64 word"

text \<open>The cells \<open>p[0], ..., p[n - 1]\<close> of an array, read from a store.\<close>

definition read_array :: "'a heap \<Rightarrow> addr \<Rightarrow> nat \<Rightarrow> 'a list" where
  "read_array h p n = map (\<lambda>k. h (p + k)) [0..<n]"

text \<open>
  The offset of an \<^verbatim>\<open>int\<close> index. The loop of the functor only ever indexes with
  \<open>0 \<le> i\<close>; a negative count denotes no cells.
\<close>

definition index :: "int32 \<Rightarrow> nat" where
  "index i = nat (sint i)"

text \<open>
  Two arrays, of \<open>m\<close> cells at \<open>p\<close> and of \<open>n\<close> cells at \<open>q\<close>, that share no cell.
\<close>

definition separate :: "addr \<Rightarrow> nat \<Rightarrow> addr \<Rightarrow> nat \<Rightarrow> bool" where
  "separate p m q n \<longleftrightarrow> m = 0 \<or> n = 0 \<or> p + m \<le> q \<or> q + n \<le> p"

text \<open>
  Reordering: \<open>permute_array p xs\<close> has \<open>xs ! p i\<close> at position \<open>i\<close>, and \<open>p\<close> permutes the
  indices below \<open>n\<close> when it maps them to distinct indices below \<open>n\<close>.
\<close>

definition permute_array :: "(nat \<Rightarrow> nat) \<Rightarrow> 'a list \<Rightarrow> 'a list" where
  "permute_array p xs = map (\<lambda>i. xs ! p i) [0..<length xs]"

definition permutes_below :: "(nat \<Rightarrow> nat) \<Rightarrow> nat \<Rightarrow> bool" where
  "permutes_below p n \<longleftrightarrow> list_all (\<lambda>i. p i < n) [0..<n] \<and> distinct (map p [0..<n])"

subsection \<open>The grid interpolator\<close>

text \<open>
  Modelled from the spec: \<^verbatim>\<open>transit::compute_delta<T>\<close> is declared in \<^verbatim>\<open>transit_op.h\<close>,
  which is not among the sources. The spec gives its contract only:
  \<^verbatim>\<open>compute_delta(grid_size, grid, z, r) -> delta\<close>, a pure function of the count
  \<^verbatim>\<open>grid_size\<close>, the model grid (the \<^verbatim>\<open>grid_size\<close> cells behind the pointer) and the two
  scalars. It is therefore a parameter of the functor, of this type: it is given the
  count as passed and the grid cells as they are in memory at the moment of the call.
\<close>

type_synonym 'a compute_delta = "int32 \<Rightarrow> 'a list \<Rightarrow> 'a \<Rightarrow> 'a \<Rightarrow> 'a"

subsection \<open>The sequential functor\<close>

text \<open>
  \<^verbatim>\<open>
  for (int i = 0; i < size; ++i) {
    delta[i] = transit::compute_delta<T>(grid_size, grid, z[i], r[i]);
  }
  \<close>
  The loop from a given value of \<^verbatim>\<open>i\<close>, on 32-bit signed integers: \<open><s\<close> is the signed
  comparison and \<open>i + 1\<close> wraps. The right-hand side is evaluated in the store of the
  moment and the result stored at \<^verbatim>\<open>delta[i]\<close>. (The parameter \<^verbatim>\<open>size\<close> is written \<open>sz\<close>.)
\<close>

function TransitFunctor_CPU_loop ::
  "'a compute_delta \<Rightarrow> int32 \<Rightarrow> addr \<Rightarrow> int32 \<Rightarrow> addr \<Rightarrow> addr \<Rightarrow> addr \<Rightarrow> int32 \<Rightarrow>
     'a heap \<Rightarrow> 'a heap" where
  "TransitFunctor_CPU_loop cd grid_size grid sz z r delta i h =
     (if i <s sz
      then TransitFunctor_CPU_loop cd grid_size grid sz z r delta (i + 1)
             (h(delta + index i :=
                  cd grid_size (read_array h grid (index grid_size))
                     (h (z + index i)) (h (r + index i))))
      else h)"
  by pat_completeness auto
termination
proof (relation "measure (\<lambda>(cd, grid_size, grid, sz, z, r, delta, i, h). nat (sint sz - sint i))")
  show "wf (measure (\<lambda>(cd :: 'a compute_delta, grid_size :: int32, grid :: addr, sz :: int32,
           z :: addr, r :: addr, delta :: addr, i :: int32, h :: 'a heap). nat (sint sz - sint i)))"
    by simp
next
  fix cd :: "'a compute_delta" and grid_size sz i :: int32 and grid z r delta :: addr
    and h :: "'a heap"
  assume "i <s sz"
  then have lt: "sint i < sint sz"
    by (simp add: word_sless_alt)
  moreover have "sint sz < 2 ^ 31"
    using sint_lt [of sz] by simp
  moreover have "- (2 ^ 31) \<le> sint i"
    using sint_ge [of i] by simp
  ultimately have "sint (i + 1) = sint i + 1"
    by (simp add: sint_word_ariths signed_take_bit_int_eq_self)
  with lt show "((cd, grid_size, grid, sz, z, r, delta, i + 1,
        h(delta + index i :=
            cd grid_size (read_array h grid (index grid_size)) (h (z + index i)) (h (r + index i)))),
       (cd, grid_size, grid, sz, z, r, delta, i, h))
      \<in> measure (\<lambda>(cd, grid_size, grid, sz, z, r, delta, i, h). nat (sint sz - sint i))"
    by simp
qed

declare TransitFunctor_CPU_loop.simps [simp del]

text \<open>\<^verbatim>\<open>TransitFunctor<CPUDevice, T>::operator()\<close>: the loop from \<open>i = 0\<close>.\<close>

definition TransitFunctor_CPU ::
  "'a compute_delta \<Rightarrow> int32 \<Rightarrow> addr \<Rightarrow> int32 \<Rightarrow> addr \<Rightarrow> addr \<Rightarrow> addr \<Rightarrow> 'a heap \<Rightarrow> 'a heap" where
  "TransitFunctor_CPU cd grid_size grid sz z r delta h =
     TransitFunctor_CPU_loop cd grid_size grid sz z r delta 0 h"

subsection \<open>The data-parallel functor\<close>

text \<open>One assignment \<^verbatim>\<open>delta[k] = compute_delta(grid_size, grid, z[k], r[k])\<close>.\<close>

definition assign_delta ::
  "'a compute_delta \<Rightarrow> int32 \<Rightarrow> addr \<Rightarrow> addr \<Rightarrow> addr \<Rightarrow> addr \<Rightarrow> 'a heap \<Rightarrow> nat \<Rightarrow> 'a heap" where
  "assign_delta cd grid_size grid z r delta h k =
     h(delta + k := cd grid_size (read_array h grid (index grid_size)) (h (z + k)) (h (r + k)))"

text \<open>
  Modelled from the spec: \<^verbatim>\<open>TransitFunctor<GPUDevice, T>\<close> is defined in a CUDA source that
  is not among the sources; \<^verbatim>\<open>transit_op.cc\<close> only registers the GPU kernels. The spec
  describes it as the data-parallel (many-lane) strategy of the same evaluator, which
  "independently applies the Grid Interpolator to each index \<open>i\<close> in \<open>[0, size)\<close>, writing
  \<open>delta[i] = compute_delta(grid_size, grid, z[i], r[i])\<close>", the unit of parallelism being
  the per-sample computation and the order of execution arbitrary. An execution is
  therefore given by the order \<open>sched\<close> in which the lanes perform their assignments: a
  lane whose index is not below \<^verbatim>\<open>size\<close> does nothing, and every index below \<^verbatim>\<open>size\<close> is
  served exactly once. The interpolator is taken to be the same function on both
  devices: the floating-point arithmetic of the devices is not modelled.
\<close>

definition schedule :: "int32 \<Rightarrow> nat list \<Rightarrow> bool" where
  "schedule sz sched \<longleftrightarrow> distinct sched \<and> {0..<index sz} \<subseteq> set sched"

definition TransitFunctor_GPU ::
  "nat list \<Rightarrow> 'a compute_delta \<Rightarrow> int32 \<Rightarrow> addr \<Rightarrow> int32 \<Rightarrow> addr \<Rightarrow> addr \<Rightarrow> addr \<Rightarrow>
     'a heap \<Rightarrow> 'a heap" where
  "TransitFunctor_GPU sched cd grid_size grid sz z r delta h =
     foldl (assign_delta cd grid_size grid z r delta) h (filter (\<lambda>k. k < index sz) sched)"

subsection \<open>The kernel of the operation\<close>

text \<open>
  The host framework's \<^verbatim>\<open>Status\<close>: \<^verbatim>\<open>OK\<close>, the invalid-argument error that
  \<^verbatim>\<open>Compute\<close> builds itself, and the error of a failed allocation.
\<close>

datatype status = OK | InvalidArgument string | ResourceExhausted string

text \<open>
  A tensor: its shape (the sizes of its dimensions) and the address of its buffer, the
  \<^verbatim>\<open>data()\<close> of its flat view. \<^verbatim>\<open>NumElements\<close> is the product of the dimension sizes,
  an \<^verbatim>\<open>int64\<close>.
\<close>

record tensor =
  shape :: "int list"
  data :: addr

definition NumElements :: "tensor \<Rightarrow> int64" where
  "NumElements t = word_of_int (prod_list (shape t))"

text \<open>
  What \<^verbatim>\<open>Compute\<close> reads from its \<^verbatim>\<open>OpKernelContext\<close>: the three input tensors (the
  operation is registered with the inputs \<^verbatim>\<open>params\<close>, \<^verbatim>\<open>z\<close> and \<^verbatim>\<open>r\<close>) and the memory that
  holds their buffers.
\<close>

record 'a kernel_input =
  input0 :: tensor
  input1 :: tensor
  input2 :: tensor
  mem :: "'a heap"

text \<open>
  What \<^verbatim>\<open>Compute\<close> leaves in the context, which is fresh at every call (status
  \<^verbatim>\<open>OK\<close>, no output): the status, output 0 if it was allocated, and the memory.
\<close>

record 'a OpKernelContext =
  status :: status
  output0 :: "tensor option"
  memory :: "'a heap"

text \<open>
  \<^verbatim>\<open>context->allocate_output(0, shape, &delta_tensor)\<close> belongs to the host framework:
  it returns a status and, when that is \<^verbatim>\<open>OK\<close>, a tensor of the requested shape on a
  buffer of its choice. The choice of the buffer and the failures are a parameter.
\<close>

type_synonym allocate_output = "int list \<Rightarrow> status \<times> addr"

text \<open>
  The functor that \<^verbatim>\<open>Compute\<close> calls is \<^verbatim>\<open>TransitFunctor<Device, T>\<close>, for the
  \<^verbatim>\<open>Device\<close> of the template: a parameter here too.
\<close>

type_synonym 'a transit_functor =
  "int32 \<Rightarrow> addr \<Rightarrow> int32 \<Rightarrow> addr \<Rightarrow> addr \<Rightarrow> addr \<Rightarrow> 'a heap \<Rightarrow> 'a heap"

definition kint32max :: int64 where
  "kint32max = 2147483647"

text \<open>
  \<^verbatim>\<open>TransitOp::Compute\<close>. \<^verbatim>\<open>OP_REQUIRES\<close> sets the status and returns when its condition
  is false, \<^verbatim>\<open>OP_REQUIRES_OK\<close> when the status it is given is not \<^verbatim>\<open>OK\<close>.
  \<^verbatim>\<open>static_cast<int>\<close> of an \<^verbatim>\<open>int64\<close> keeps the low 32 bits (\<open>scast\<close>).
\<close>

definition Compute :: "'a transit_functor \<Rightarrow> allocate_output \<Rightarrow> 'a kernel_input \<Rightarrow> 'a OpKernelContext" where
  "Compute F alloc inp =
     (let grid_tensor = input0 inp;
          z_tensor = input1 inp;
          r_tensor = input2 inp;
          grid_size = NumElements grid_tensor;
          sz = NumElements z_tensor
      in if NumElements r_tensor \<noteq> sz
         then \<lparr>status = InvalidArgument ''z and r must have the same number of elements'',
               output0 = None, memory = mem inp\<rparr>
         else case alloc (shape z_tensor) of (st, buf) \<Rightarrow>
           if st \<noteq> OK
           then \<lparr>status = st, output0 = None, memory = mem inp\<rparr>
           else let delta_tensor = \<lparr>shape = shape z_tensor, data = buf\<rparr>
             in if \<not> sz \<le>s kint32max
                then \<lparr>status = InvalidArgument ''Too many elements in tensor'',
                      output0 = Some delta_tensor, memory = mem inp\<rparr>
                else \<lparr>status = OK, output0 = Some delta_tensor,
                      memory = F (scast grid_size) (data grid_tensor) (scast sz) (data z_tensor)
                                 (data r_tensor) (data delta_tensor) (mem inp)\<rparr>)"

subsection \<open>Concrete inputs\<close>

text \<open>
  A stand-in interpolator on integer cells and a store whose cell \<open>a\<close> holds \<open>a\<close>; they
  serve to instantiate the theorems below at concrete inputs.
\<close>

definition example_delta :: "int compute_delta" where
  "example_delta grid_size grid z r = sum_list grid + z * r"

definition example_heap :: "int heap" where
  "example_heap a = int a"

text \<open>The same three arrays 100 cells further on, in a store that differs everywhere.\<close>

definition shifted_heap :: "int heap" where
  "shifted_heap a = int a - 100"

text \<open>The samples \<open>(z[i], r[i])\<close> of \<open>example_heap\<close> with the first and the third exchanged.\<close>

definition example_perm :: "nat \<Rightarrow> nat" where
  "example_perm i = (if i = 0 then 2 else if i = 2 then 0 else i)"

definition permuted_heap :: "int heap" where
  "permuted_heap a =
     (if a = 10 then 12 else if a = 12 then 10 else if a = 20 then 22 else if a = 22 then 20
      else int a)"

definition example_alloc :: allocate_output where
  "example_alloc shp = (OK, 30)"

definition failing_alloc :: allocate_output where
  "failing_alloc shp = (ResourceExhausted ''OOM when allocating tensor'', 0)"

definition example_input :: "int list \<Rightarrow> int list \<Rightarrow> int list \<Rightarrow> int kernel_input" where
  "example_input gs zs rs =
     \<lparr>input0 = \<lparr>shape = gs, data = 0\<rparr>, input1 = \<lparr>shape = zs, data = 10\<rparr>,
      input2 = \<lparr>shape = rs, data = 20\<rparr>, mem = example_heap\<rparr>"

section \<open>Properties\<close>

subsection \<open>The loop as a fold over the indices\<close>

lemma sint_succ_below:
  fixes i n :: int32
  assumes "i <s n"
  shows "sint (i + 1) = sint i + 1"
proof -
  have "sint i < sint n"
    using assms by (simp add: word_sless_alt)
  moreover have "sint n < 2 ^ 31"
    using sint_lt [of n] by simp
  moreover have "- (2 ^ 31) \<le> sint i"
    using sint_ge [of i] by simp
  ultimately show ?thesis
    by (simp add: sint_word_ariths signed_take_bit_int_eq_self)
qed

lemma loop_is_foldl:
  "0 \<le> sint i \<Longrightarrow>
   TransitFunctor_CPU_loop cd grid_size grid sz z r delta i h =
     foldl (assign_delta cd grid_size grid z r delta) h [index i..<index sz]"
proof (induction cd grid_size grid sz z r delta i h rule: TransitFunctor_CPU_loop.induct)
  case (1 cd grid_size grid sz z r delta i h)
  show ?case
  proof (cases "i <s sz")
    case True
    then have lt: "sint i < sint sz"
      by (simp add: word_sless_alt)
    have succ: "sint (i + 1) = sint i + 1"
      using True by (rule sint_succ_below)
    have idx: "index (i + 1) = Suc (index i)"
      using "1.prems" succ by (simp add: index_def nat_add_distrib)
    have "index i < index sz"
      using "1.prems" lt by (simp add: index_def)
    then have upt: "[index i..<index sz] = index i # [Suc (index i)..<index sz]"
      by (simp add: upt_conv_Cons)
    have "0 \<le> sint (i + 1)"
      using "1.prems" succ by simp
    have step: "h(delta + index i :=
          cd grid_size (read_array h grid (index grid_size)) (h (z + index i)) (h (r + index i))) =
        assign_delta cd grid_size grid z r delta h (index i)"
      by (simp add: assign_delta_def)
    have "TransitFunctor_CPU_loop cd grid_size grid sz z r delta i h =
        TransitFunctor_CPU_loop cd grid_size grid sz z r delta (i + 1)
          (assign_delta cd grid_size grid z r delta h (index i))"
      using True by (subst TransitFunctor_CPU_loop.simps) (simp only: step if_True)
    also have "\<dots> = foldl (assign_delta cd grid_size grid z r delta)
        (assign_delta cd grid_size grid z r delta h (index i)) [index (i + 1)..<index sz]"
      using "1.IH" [OF True \<open>0 \<le> sint (i + 1)\<close>] by (simp only: step)
    finally show ?thesis
      by (simp only: idx upt foldl_Cons)
  next
    case False
    then have "sint sz \<le> sint i"
      by (simp add: word_sless_alt)
    then have "index sz \<le> index i"
      by (simp add: index_def)
    then have "[index i..<index sz] = []"
      by simp
    moreover have "TransitFunctor_CPU_loop cd grid_size grid sz z r delta i h = h"
      using False by (subst TransitFunctor_CPU_loop.simps) (simp only: if_False)
    ultimately show ?thesis
      by (simp only: foldl_Nil)
  qed
qed

lemma TransitFunctor_CPU_foldl:
  "TransitFunctor_CPU cd grid_size grid sz z r delta h =
     foldl (assign_delta cd grid_size grid z r delta) h [0..<index sz]"
proof -
  have "index (0 :: int32) = 0"
    by (simp add: index_def)
  moreover have "(0 :: int) \<le> sint (0 :: int32)"
    by simp
  ultimately show ?thesis
    using loop_is_foldl [of 0 cd grid_size grid sz z r delta h]
    by (simp only: TransitFunctor_CPU_def)
qed

subsection \<open>Assignments in any order\<close>

lemma assign_delta_apply:
  "assign_delta cd grid_size grid z r delta h k a =
     (if a = delta + k
      then cd grid_size (read_array h grid (index grid_size)) (h (z + k)) (h (r + k))
      else h a)"
  by (simp add: assign_delta_def)

lemma foldl_assign_frame:
  "a \<notin> (\<lambda>k. delta + k) ` set ks \<Longrightarrow>
   foldl (assign_delta cd grid_size grid z r delta) h ks a = h a"
  by (induction ks arbitrary: h) (auto simp: assign_delta_apply)

lemma separate_cell:
  "separate delta n p m \<Longrightarrow> k < n \<Longrightarrow> j < m \<Longrightarrow> p + j \<noteq> delta + k"
  by (auto simp: separate_def)

lemma foldl_assign_cell:
  assumes "separate delta n p m" and "set ks \<subseteq> {0..<n}" and "j < m"
  shows "foldl (assign_delta cd grid_size grid z r delta) h ks (p + j) = h (p + j)"
proof (rule foldl_assign_frame)
  show "p + j \<notin> (\<lambda>k. delta + k) ` set ks"
  proof
    assume "p + j \<in> (\<lambda>k. delta + k) ` set ks"
    then obtain k where "k \<in> set ks" and "p + j = delta + k"
      by auto
    moreover from \<open>k \<in> set ks\<close> assms(2) have "k < n"
      by auto
    ultimately show False
      using separate_cell [OF assms(1) \<open>k < n\<close> assms(3)] by simp
  qed
qed

lemma foldl_assign_read_array:
  assumes "separate delta n p m" and "set ks \<subseteq> {0..<n}"
  shows "read_array (foldl (assign_delta cd grid_size grid z r delta) h ks) p m = read_array h p m"
  using assms by (simp add: read_array_def foldl_assign_cell)

lemma foldl_assign_value:
  assumes grid: "separate delta n grid (index grid_size)"
    and z: "separate delta n z n"
    and r: "separate delta n r n"
    and ks: "set ks \<subseteq> {0..<n}"
    and k: "k \<in> set ks"
  shows "foldl (assign_delta cd grid_size grid z r delta) h ks (delta + k) =
    cd grid_size (read_array h grid (index grid_size)) (h (z + k)) (h (r + k))"
  using ks k
proof (induction ks rule: rev_induct)
  case Nil
  then show ?case by simp
next
  case (snoc x xs)
  let ?h = "foldl (assign_delta cd grid_size grid z r delta) h xs"
  have xs: "set xs \<subseteq> {0..<n}" and x: "x < n"
    using snoc.prems by auto
  have last: "foldl (assign_delta cd grid_size grid z r delta) h (xs @ [x]) (delta + j) =
      (if j = x
       then cd grid_size (read_array ?h grid (index grid_size)) (?h (z + x)) (?h (r + x))
       else ?h (delta + j))" for j
    by (simp only: foldl_append foldl_Cons foldl_Nil assign_delta_apply add_left_cancel)
  show ?case
  proof (cases "k = x")
    case True
    have "read_array ?h grid (index grid_size) = read_array h grid (index grid_size)"
      using grid xs by (rule foldl_assign_read_array)
    moreover have "?h (z + x) = h (z + x)"
      using z xs x by (rule foldl_assign_cell)
    moreover have "?h (r + x) = h (r + x)"
      using r xs x by (rule foldl_assign_cell)
    ultimately have "foldl (assign_delta cd grid_size grid z r delta) h (xs @ [x]) (delta + x) =
        cd grid_size (read_array h grid (index grid_size)) (h (z + x)) (h (r + x))"
      by (simp only: last simp_thms if_True)
    then show ?thesis
      by (simp only: True)
  next
    case False
    then have "k \<in> set xs"
      using snoc.prems by auto
    with snoc.IH xs have "?h (delta + k) =
        cd grid_size (read_array h grid (index grid_size)) (h (z + k)) (h (r + k))"
      by simp
    with False show ?thesis
      by (simp only: last if_False)
  qed
qed

lemma read_array_nth:
  "i < n \<Longrightarrow> read_array h p n ! i = h (p + i)"
  by (simp add: read_array_def)

lemma length_read_array:
  "length (read_array h p n) = n"
  by (simp add: read_array_def)

lemma CPU_delta:
  assumes "separate delta (index sz) grid (index grid_size)"
    and "separate delta (index sz) z (index sz)"
    and "separate delta (index sz) r (index sz)"
  shows "read_array (TransitFunctor_CPU cd grid_size grid sz z r delta h) delta (index sz) =
      map (\<lambda>i. cd grid_size (read_array h grid (index grid_size)) (h (z + i)) (h (r + i)))
        [0..<index sz]"
  using foldl_assign_value [OF assms, where ks = "[0..<index sz]" and cd = cd and h = h]
  by (simp add: TransitFunctor_CPU_foldl read_array_def)

lemma CPU_frame:
  "a < delta \<or> delta + index sz \<le> a \<Longrightarrow>
   TransitFunctor_CPU cd grid_size grid sz z r delta h a = h a"
  unfolding TransitFunctor_CPU_foldl
  by (auto intro!: foldl_assign_frame)

subsection \<open>What the sequential functor writes\<close>

text \<open>
  Claim C1. For a grid of \<^verbatim>\<open>grid_size\<close> cells, arrays \<^verbatim>\<open>z\<close> and \<^verbatim>\<open>r\<close> of \<^verbatim>\<open>size\<close> cells and an
  output array \<^verbatim>\<open>delta\<close> of \<^verbatim>\<open>size\<close> cells that shares no cell with them, the functor
  leaves \<open>compute_delta(grid_size, grid, z[i], r[i])\<close> in \<open>delta[i]\<close> for every \<open>i\<close> in
  \<open>[0, size)\<close>, computed from the grid, \<open>z\<close> and \<open>r\<close> as they were at the call, and every
  cell outside \<open>delta[0..size)\<close> holds what it held before.
\<close>

theorem TransitFunctor_CPU_writes:
  assumes "separate delta (index sz) grid (index grid_size)"
    and "separate delta (index sz) z (index sz)"
    and "separate delta (index sz) r (index sz)"
  shows "read_array (TransitFunctor_CPU cd grid_size grid sz z r delta h) delta (index sz) =
      map (\<lambda>i. cd grid_size (read_array h grid (index grid_size)) (h (z + i)) (h (r + i)))
        [0..<index sz] \<and>
    (\<forall>a. a < delta \<or> delta + index sz \<le> a \<longrightarrow>
       TransitFunctor_CPU cd grid_size grid sz z r delta h a = h a)"
  using CPU_delta [OF assms] CPU_frame by blast

theorem TransitFunctor_CPU_writes_witness:
  "separate 30 (index 3) 0 (index 2) \<and> separate 30 (index 3) 10 (index 3) \<and>
   separate 30 (index 3) 20 (index 3) \<and>
   read_array (TransitFunctor_CPU example_delta 2 0 3 10 20 30 example_heap) 30 (index 3) =
     [201, 232, 265] \<and>
   TransitFunctor_CPU example_delta 2 0 3 10 20 30 example_heap 33 = 33"
proof -
  have idx: "index 3 = 3" "index 2 = 2"
    by (simp_all add: index_def)
  have s: "separate 30 (index 3) 0 (index 2)" "separate 30 (index 3) 10 (index 3)"
    "separate 30 (index 3) 20 (index 3)"
    by (simp_all add: separate_def idx)
  note w = TransitFunctor_CPU_writes [OF s, of example_delta example_heap]
  have "map (\<lambda>i. example_delta 2 (read_array example_heap 0 (index 2)) (example_heap (10 + i))
      (example_heap (20 + i))) [0..<index 3] = [201, 232, 265]"
    by (simp add: idx read_array_def example_delta_def example_heap_def upt_rec)
  with w have "read_array (TransitFunctor_CPU example_delta 2 0 3 10 20 30 example_heap) 30 (index 3) =
     [201, 232, 265]"
    by (simp only:)
  moreover from w have "TransitFunctor_CPU example_delta 2 0 3 10 20 30 example_heap 33 = 33"
    by (simp add: idx example_heap_def)
  ultimately show ?thesis
    using s by simp
qed

subsection \<open>The grid is only read\<close>

text \<open>
  Claim C9. A call of the functor does not change the grid: the \<^verbatim>\<open>grid_size\<close> cells of the
  grid, an array that shares no cell with the output array, hold after the call what
  they held before it, and every cell whose content has changed is a cell of
  \<open>delta[0..size)\<close>.
\<close>

theorem TransitFunctor_CPU_grid_unchanged:
  assumes "separate delta (index sz) grid (index grid_size)"
  shows "read_array (TransitFunctor_CPU cd grid_size grid sz z r delta h) grid (index grid_size) =
      read_array h grid (index grid_size) \<and>
    {a. TransitFunctor_CPU cd grid_size grid sz z r delta h a \<noteq> h a} \<subseteq>
      {delta..<delta + index sz}"
proof
  show "read_array (TransitFunctor_CPU cd grid_size grid sz z r delta h) grid (index grid_size) =
      read_array h grid (index grid_size)"
    unfolding TransitFunctor_CPU_foldl
    using assms by (rule foldl_assign_read_array) simp
next
  show "{a. TransitFunctor_CPU cd grid_size grid sz z r delta h a \<noteq> h a} \<subseteq>
      {delta..<delta + index sz}"
  proof
    fix a
    assume "a \<in> {a. TransitFunctor_CPU cd grid_size grid sz z r delta h a \<noteq> h a}"
    then have "\<not> (a < delta \<or> delta + index sz \<le> a)"
      using CPU_frame [of a delta sz cd grid_size grid z r h] by auto
    then show "a \<in> {delta..<delta + index sz}"
      by simp
  qed
qed

theorem TransitFunctor_CPU_grid_unchanged_witness:
  "separate 30 (index 3) 0 (index 2) \<and>
   read_array (TransitFunctor_CPU example_delta 2 0 3 10 20 30 example_heap) 0 (index 2) = [0, 1] \<and>
   {a. TransitFunctor_CPU example_delta 2 0 3 10 20 30 example_heap a \<noteq> example_heap a} \<subseteq>
      {30..<30 + index 3}"
proof -
  have idx: "index 3 = 3" "index 2 = 2"
    by (simp_all add: index_def)
  have s: "separate 30 (index 3) 0 (index 2)"
    by (simp add: separate_def idx)
  have "read_array example_heap 0 (index 2) = [0, 1]"
    by (simp add: idx read_array_def example_heap_def upt_rec)
  with TransitFunctor_CPU_grid_unchanged [OF s, of example_delta 10 20 example_heap] s
  show ?thesis
    by (simp only: simp_thms)
qed

subsection \<open>The output is a function of the input arrays\<close>

text \<open>
  Claim C8. The evaluation is deterministic: two calls of the functor (same interpolator,
  same element type) whose grids, \<open>z\<close> arrays and \<open>r\<close> arrays hold the same values leave the
  same values in their output arrays, wherever the arrays lie and whatever else the two
  stores hold, the previous contents of the output arrays included.
\<close>

theorem TransitFunctor_CPU_deterministic:
  assumes "separate delta (index sz) grid (index grid_size)"
    and "separate delta (index sz) z (index sz)"
    and "separate delta (index sz) r (index sz)"
    and "separate delta' (index sz) grid' (index grid_size)"
    and "separate delta' (index sz) z' (index sz)"
    and "separate delta' (index sz) r' (index sz)"
    and grid: "read_array h' grid' (index grid_size) = read_array h grid (index grid_size)"
    and z: "read_array h' z' (index sz) = read_array h z (index sz)"
    and r: "read_array h' r' (index sz) = read_array h r (index sz)"
  shows "read_array (TransitFunctor_CPU cd grid_size grid' sz z' r' delta' h') delta' (index sz) =
    read_array (TransitFunctor_CPU cd grid_size grid sz z r delta h) delta (index sz)"
proof -
  have "h' (z' + i) = h (z + i)" if "i < index sz" for i
    using read_array_nth [OF that, of h' z'] read_array_nth [OF that, of h z] z by simp
  moreover have "h' (r' + i) = h (r + i)" if "i < index sz" for i
    using read_array_nth [OF that, of h' r'] read_array_nth [OF that, of h r] r by simp
  ultimately show ?thesis
    by (simp add: CPU_delta [OF assms(1-3)] CPU_delta [OF assms(4-6)] grid)
qed

theorem TransitFunctor_CPU_deterministic_witness:
  "separate 30 (index 3) 0 (index 2) \<and> separate 30 (index 3) 10 (index 3) \<and>
   separate 30 (index 3) 20 (index 3) \<and>
   separate 130 (index 3) 100 (index 2) \<and> separate 130 (index 3) 110 (index 3) \<and>
   separate 130 (index 3) 120 (index 3) \<and>
   read_array shifted_heap 100 (index 2) = read_array example_heap 0 (index 2) \<and>
   read_array shifted_heap 110 (index 3) = read_array example_heap 10 (index 3) \<and>
   read_array shifted_heap 120 (index 3) = read_array example_heap 20 (index 3) \<and>
   read_array (TransitFunctor_CPU example_delta 2 100 3 110 120 130 shifted_heap) 130 (index 3) =
     read_array (TransitFunctor_CPU example_delta 2 0 3 10 20 30 example_heap) 30 (index 3)"
proof -
  have idx: "index 3 = 3" "index 2 = 2"
    by (simp_all add: index_def)
  have s: "separate 30 (index 3) 0 (index 2)" "separate 30 (index 3) 10 (index 3)"
    "separate 30 (index 3) 20 (index 3)"
    "separate 130 (index 3) 100 (index 2)" "separate 130 (index 3) 110 (index 3)"
    "separate 130 (index 3) 120 (index 3)"
    by (simp_all add: separate_def idx)
  have e: "read_array shifted_heap 100 (index 2) = read_array example_heap 0 (index 2)"
    "read_array shifted_heap 110 (index 3) = read_array example_heap 10 (index 3)"
    "read_array shifted_heap 120 (index 3) = read_array example_heap 20 (index 3)"
    by (simp_all add: idx read_array_def shifted_heap_def example_heap_def)
  from TransitFunctor_CPU_deterministic [OF s e, of example_delta] s e show ?thesis
    by (simp only: simp_thms)
qed

subsection \<open>Samples are evaluated independently\<close>

text \<open>
  Claim C7. For every permutation \<open>p\<close> of the indices \<open>[0, size)\<close>: the functor run on the
  permuted samples, \<open>z[p(i)]\<close> and \<open>r[p(i)]\<close> at position \<open>i\<close>, over the same grid, leaves in
  \<open>delta\<close> the output of the run on the original samples permuted by the same \<open>p\<close>; no
  output element depends on a sample pair other than its own.
\<close>

theorem TransitFunctor_CPU_permutation:
  assumes "separate delta (index sz) grid (index grid_size)"
    and "separate delta (index sz) z (index sz)"
    and "separate delta (index sz) r (index sz)"
    and p: "permutes_below p (index sz)"
    and grid: "read_array h' grid (index grid_size) = read_array h grid (index grid_size)"
    and z: "read_array h' z (index sz) = permute_array p (read_array h z (index sz))"
    and r: "read_array h' r (index sz) = permute_array p (read_array h r (index sz))"
  shows "read_array (TransitFunctor_CPU cd grid_size grid sz z r delta h') delta (index sz) =
    permute_array p (read_array (TransitFunctor_CPU cd grid_size grid sz z r delta h) delta (index sz))"
proof -
  have below: "p i < index sz" if "i < index sz" for i
    using p that by (simp add: permutes_below_def list_all_iff)
  have "h' (z + i) = h (z + p i)" if "i < index sz" for i
  proof -
    have "h' (z + i) = read_array h' z (index sz) ! i"
      using that by (simp add: read_array_nth)
    also have "\<dots> = read_array h z (index sz) ! p i"
      using that by (simp add: z permute_array_def length_read_array)
    finally show ?thesis
      using below [OF that] by (simp add: read_array_nth)
  qed
  moreover have "h' (r + i) = h (r + p i)" if "i < index sz" for i
  proof -
    have "h' (r + i) = read_array h' r (index sz) ! i"
      using that by (simp add: read_array_nth)
    also have "\<dots> = read_array h r (index sz) ! p i"
      using that by (simp add: r permute_array_def length_read_array)
    finally show ?thesis
      using below [OF that] by (simp add: read_array_nth)
  qed
  ultimately show ?thesis
    using below
    by (simp add: CPU_delta [OF assms(1-3)] grid permute_array_def)
qed

theorem TransitFunctor_CPU_permutation_witness:
  "separate 30 (index 3) 0 (index 2) \<and> separate 30 (index 3) 10 (index 3) \<and>
   separate 30 (index 3) 20 (index 3) \<and> permutes_below example_perm (index 3) \<and>
   read_array permuted_heap 0 (index 2) = read_array example_heap 0 (index 2) \<and>
   read_array permuted_heap 10 (index 3) = permute_array example_perm (read_array example_heap 10 (index 3)) \<and>
   read_array permuted_heap 20 (index 3) = permute_array example_perm (read_array example_heap 20 (index 3)) \<and>
   read_array (TransitFunctor_CPU example_delta 2 0 3 10 20 30 permuted_heap) 30 (index 3) =
     permute_array example_perm
       (read_array (TransitFunctor_CPU example_delta 2 0 3 10 20 30 example_heap) 30 (index 3))"
proof -
  have idx: "index 3 = 3" "index 2 = 2"
    by (simp_all add: index_def)
  have s: "separate 30 (index 3) 0 (index 2)" "separate 30 (index 3) 10 (index 3)"
    "separate 30 (index 3) 20 (index 3)"
    by (simp_all add: separate_def idx)
  have p: "permutes_below example_perm (index 3)"
    by (simp add: idx permutes_below_def example_perm_def upt_rec)
  have e: "read_array permuted_heap 0 (index 2) = read_array example_heap 0 (index 2)"
    "read_array permuted_heap 10 (index 3) = permute_array example_perm (read_array example_heap 10 (index 3))"
    "read_array permuted_heap 20 (index 3) = permute_array example_perm (read_array example_heap 20 (index 3))"
    by (simp_all add: idx read_array_def permute_array_def permuted_heap_def example_heap_def
        example_perm_def upt_rec)
  from TransitFunctor_CPU_permutation [OF s p e, of example_delta] s p e show ?thesis
    by (simp only: simp_thms)
qed

subsection \<open>Sequential and data-parallel execution\<close>

text \<open>
  Claim C6. For every valid input the data-parallel strategy leaves the same store, hence
  the same output array \<open>delta\<close>, as the sequential one, whatever the order in which the
  lanes perform their assignments. The data-parallel functor is the one modelled from
  the spec above, with the interpolator taken to be the same function on both devices.
\<close>

theorem TransitFunctor_GPU_eq_CPU:
  assumes "schedule sz sched"
    and "separate delta (index sz) grid (index grid_size)"
    and "separate delta (index sz) z (index sz)"
    and "separate delta (index sz) r (index sz)"
  shows "TransitFunctor_GPU sched cd grid_size grid sz z r delta h =
    TransitFunctor_CPU cd grid_size grid sz z r delta h"
proof
  fix a
  let ?ks = "filter (\<lambda>k. k < index sz) sched"
  have ks: "set ?ks \<subseteq> {0..<index sz}" and up: "set [0..<index sz] \<subseteq> {0..<index sz}"
    by auto
  show "TransitFunctor_GPU sched cd grid_size grid sz z r delta h a =
    TransitFunctor_CPU cd grid_size grid sz z r delta h a"
  proof (cases "a < delta \<or> delta + index sz \<le> a")
    case True
    then have "a \<notin> (\<lambda>k. delta + k) ` set ?ks"
      by auto
    then have "TransitFunctor_GPU sched cd grid_size grid sz z r delta h a = h a"
      unfolding TransitFunctor_GPU_def by (rule foldl_assign_frame)
    with True show ?thesis
      by (simp add: CPU_frame)
  next
    case False
    then obtain k where a: "a = delta + k" and k: "k < index sz"
      by (metis add.commute le_add_diff_inverse2 nat_add_left_cancel_less not_le_imp_less)
    from k assms(1) have "k \<in> set ?ks"
      by (auto simp: schedule_def)
    then have "TransitFunctor_GPU sched cd grid_size grid sz z r delta h (delta + k) =
        cd grid_size (read_array h grid (index grid_size)) (h (z + k)) (h (r + k))"
      unfolding TransitFunctor_GPU_def
      using foldl_assign_value [OF assms(2-4) ks] by simp
    moreover from k have "k \<in> set [0..<index sz]"
      by simp
    then have "TransitFunctor_CPU cd grid_size grid sz z r delta h (delta + k) =
        cd grid_size (read_array h grid (index grid_size)) (h (z + k)) (h (r + k))"
      unfolding TransitFunctor_CPU_foldl
      using foldl_assign_value [OF assms(2-4) up] by simp
    ultimately show ?thesis
      by (simp add: a)
  qed
qed

theorem TransitFunctor_GPU_eq_CPU_witness:
  "schedule 3 [2, 0, 5, 1] \<and> separate 30 (index 3) 0 (index 2) \<and>
   separate 30 (index 3) 10 (index 3) \<and> separate 30 (index 3) 20 (index 3) \<and>
   TransitFunctor_GPU [2, 0, 5, 1] example_delta 2 0 3 10 20 30 example_heap =
     TransitFunctor_CPU example_delta 2 0 3 10 20 30 example_heap"
proof -
  have idx: "index 3 = 3" "index 2 = 2"
    by (simp_all add: index_def)
  have s: "separate 30 (index 3) 0 (index 2)" "separate 30 (index 3) 10 (index 3)"
    "separate 30 (index 3) 20 (index 3)"
    by (simp_all add: separate_def idx)
  have "{0..<3::nat} = {0, 1, 2}"
    by auto
  then have c: "schedule 3 [2, 0, 5, 1]"
    by (simp add: schedule_def idx)
  from TransitFunctor_GPU_eq_CPU [OF c s, of example_delta example_heap] c s show ?thesis
    by (simp only: simp_thms)
qed

subsection \<open>The paths of the kernel\<close>

lemma Compute_invoked:
  assumes "NumElements (input2 inp) = NumElements (input1 inp)"
    and "alloc (shape (input1 inp)) = (OK, buf)"
    and "NumElements (input1 inp) \<le>s kint32max"
  shows "Compute F alloc inp =
    \<lparr>status = OK, output0 = Some \<lparr>shape = shape (input1 inp), data = buf\<rparr>,
     memory = F (scast (NumElements (input0 inp))) (data (input0 inp))
                (scast (NumElements (input1 inp))) (data (input1 inp)) (data (input2 inp)) buf
                (mem inp)\<rparr>"
  using assms by (simp add: Compute_def Let_def)

lemma Compute_status:
  "status (Compute F alloc inp) =
     (if NumElements (input2 inp) \<noteq> NumElements (input1 inp)
      then InvalidArgument ''z and r must have the same number of elements''
      else if fst (alloc (shape (input1 inp))) \<noteq> OK then fst (alloc (shape (input1 inp)))
      else if \<not> NumElements (input1 inp) \<le>s kint32max
      then InvalidArgument ''Too many elements in tensor''
      else OK)"
  by (simp add: Compute_def Let_def split: prod.split)

subsection \<open>Arrays of different lengths\<close>

text \<open>
  Claim C2. When \<open>z\<close> and \<open>r\<close> have different numbers of elements, \<^verbatim>\<open>Compute\<close> signals the
  invalid-argument error and the functor is never invoked: whatever the functor and the
  allocator are, the status is the error, no output is allocated and the memory is as it
  was.
\<close>

theorem Compute_length_mismatch:
  assumes "NumElements (input1 inp) \<noteq> NumElements (input2 inp)"
  shows "Compute F alloc inp =
    \<lparr>status = InvalidArgument ''z and r must have the same number of elements'',
     output0 = None, memory = mem inp\<rparr>"
  using assms by (simp add: Compute_def Let_def)

theorem Compute_length_mismatch_witness:
  "NumElements (input1 (example_input [4] [3] [2])) \<noteq> NumElements (input2 (example_input [4] [3] [2])) \<and>
   Compute (TransitFunctor_CPU example_delta) example_alloc (example_input [4] [3] [2]) =
    \<lparr>status = InvalidArgument ''z and r must have the same number of elements'',
     output0 = None, memory = mem (example_input [4] [3] [2])\<rparr>"
proof -
  have "NumElements (input1 (example_input [4] [3] [2])) \<noteq> NumElements (input2 (example_input [4] [3] [2]))"
    by (simp add: NumElements_def example_input_def)
  then show ?thesis
    using Compute_length_mismatch [of "example_input [4] [3] [2]" "TransitFunctor_CPU example_delta" example_alloc]
    by (simp only: simp_thms)
qed


subsection \<open>An empty grid\<close>

text \<open>
  \<^verbatim>\<open>Compute\<close> reads the number of elements of the grid and passes it on; it never
  compares it with anything. With a grid of shape \<open>[0]\<close> and three samples the status is
  \<^verbatim>\<open>OK\<close> and the functor has run with \<^verbatim>\<open>grid_size == 0\<close>: the interpolator was applied to
  the empty grid for each sample.
\<close>

theorem Compute_empty_grid_counterexample:
  "NumElements (input0 (example_input [0] [3] [3])) = 0 \<and>
   status (Compute (TransitFunctor_CPU example_delta) example_alloc (example_input [0] [3] [3])) = OK \<and>
   memory (Compute (TransitFunctor_CPU example_delta) example_alloc (example_input [0] [3] [3])) =
     TransitFunctor_CPU example_delta 0 0 3 10 20 30 example_heap \<and>
   read_array (TransitFunctor_CPU example_delta 0 0 3 10 20 30 example_heap) 30 3 = [200, 231, 264]"
proof -
  have idx: "index 3 = 3" "index 0 = 0"
    by (simp_all add: index_def)
  have "read_array (TransitFunctor_CPU example_delta 0 0 3 10 20 30 example_heap) 30 (index 3) =
      map (\<lambda>i. example_delta 0 (read_array example_heap 0 (index 0)) (example_heap (10 + i))
        (example_heap (20 + i))) [0..<index 3]"
    by (rule CPU_delta) (simp_all add: separate_def idx)
  then have "read_array (TransitFunctor_CPU example_delta 0 0 3 10 20 30 example_heap) 30 3 =
      [200, 231, 264]"
    by (simp add: idx read_array_def example_delta_def example_heap_def upt_rec)
  then show ?thesis
    by (simp add: Compute_def NumElements_def example_input_def example_alloc_def kint32max_def)
qed

text \<open>
  Claim C3, as amended. A grid with zero elements is not rejected: when \<open>z\<close> and \<open>r\<close> have
  the same number of elements, the output allocation succeeds and \<^verbatim>\<open>size\<close> is within the
  ceiling, \<^verbatim>\<open>Compute\<close> ends with status \<^verbatim>\<open>OK\<close> and has invoked the functor with
  \<^verbatim>\<open>grid_size == 0\<close>, so the core cannot rely on \<^verbatim>\<open>grid_size >= 1\<close>.
\<close>

theorem Compute_empty_grid:
  assumes "NumElements (input0 inp) = 0"
    and "NumElements (input2 inp) = NumElements (input1 inp)"
    and "alloc (shape (input1 inp)) = (OK, buf)"
    and "NumElements (input1 inp) \<le>s kint32max"
  shows "Compute F alloc inp =
    \<lparr>status = OK, output0 = Some \<lparr>shape = shape (input1 inp), data = buf\<rparr>,
     memory = F 0 (data (input0 inp)) (scast (NumElements (input1 inp))) (data (input1 inp))
                (data (input2 inp)) buf (mem inp)\<rparr>"
  using Compute_invoked [where inp = inp and alloc = alloc and F = F, OF assms(2-4)] assms(1)
  by simp

theorem Compute_empty_grid_witness:
  "NumElements (input0 (example_input [0] [3] [3])) = 0 \<and>
   NumElements (input2 (example_input [0] [3] [3])) = NumElements (input1 (example_input [0] [3] [3])) \<and>
   example_alloc (shape (input1 (example_input [0] [3] [3]))) = (OK, 30) \<and>
   NumElements (input1 (example_input [0] [3] [3])) \<le>s kint32max \<and>
   Compute (TransitFunctor_GPU [2, 1, 0] example_delta) example_alloc (example_input [0] [3] [3]) =
    \<lparr>status = OK, output0 = Some \<lparr>shape = [3], data = 30\<rparr>,
     memory = TransitFunctor_GPU [2, 1, 0] example_delta 0 0 3 10 20 30 example_heap\<rparr>"
proof -
  let ?inp = "example_input [0] [3] [3]"
  have h: "NumElements (input0 ?inp) = 0" "NumElements (input2 ?inp) = NumElements (input1 ?inp)"
    "example_alloc (shape (input1 ?inp)) = (OK, 30)" "NumElements (input1 ?inp) \<le>s kint32max"
    by (simp_all add: NumElements_def example_input_def example_alloc_def kint32max_def)
  have "Compute (TransitFunctor_GPU [2, 1, 0] example_delta) example_alloc ?inp =
    \<lparr>status = OK, output0 = Some \<lparr>shape = [3], data = 30\<rparr>,
     memory = TransitFunctor_GPU [2, 1, 0] example_delta 0 0 3 10 20 30 example_heap\<rparr>"
    using Compute_empty_grid [where inp = ?inp and alloc = example_alloc
        and F = "TransitFunctor_GPU [2, 1, 0] example_delta", OF h]
    by (simp add: NumElements_def example_input_def)
  with h show ?thesis
    by (simp only: simp_thms)
qed

subsection \<open>More samples than a 32-bit index\<close>

text \<open>
  The ceiling is checked after the output has been allocated. With \<open>2^31\<close> samples and an
  allocation that fails, \<^verbatim>\<open>OP_REQUIRES_OK\<close> returns with the allocation's status, which
  is not an invalid-argument error.
\<close>

theorem Compute_oversized_counterexample:
  "\<not> NumElements (input1 (example_input [4] [2147483648] [2147483648])) \<le>s kint32max \<and>
   status (Compute (TransitFunctor_CPU example_delta) failing_alloc
     (example_input [4] [2147483648] [2147483648])) =
     ResourceExhausted ''OOM when allocating tensor''"
  by (simp add: Compute_def NumElements_def example_input_def failing_alloc_def kint32max_def)

text \<open>
  Claim C4, as amended. When \<^verbatim>\<open>size\<close> exceeds the signed 32-bit ceiling the functor is
  never invoked (the result does not mention it and the memory is as it was) and an
  error is signaled: the invalid-argument error of the length check when \<open>z\<close> and \<open>r\<close>
  differ in their number of elements, else the status of the output allocation when
  that fails, else the invalid-argument error "Too many elements in tensor".
\<close>

theorem Compute_oversized:
  assumes "\<not> NumElements (input1 inp) \<le>s kint32max"
  shows "Compute F alloc inp =
    (if NumElements (input2 inp) \<noteq> NumElements (input1 inp)
     then \<lparr>status = InvalidArgument ''z and r must have the same number of elements'',
           output0 = None, memory = mem inp\<rparr>
     else if fst (alloc (shape (input1 inp))) \<noteq> OK
     then \<lparr>status = fst (alloc (shape (input1 inp))), output0 = None, memory = mem inp\<rparr>
     else \<lparr>status = InvalidArgument ''Too many elements in tensor'',
           output0 = Some \<lparr>shape = shape (input1 inp), data = snd (alloc (shape (input1 inp)))\<rparr>,
           memory = mem inp\<rparr>)"
  using assms by (simp add: Compute_def Let_def split: prod.split)

theorem Compute_oversized_witness:
  "\<not> NumElements (input1 (example_input [4] [2147483648] [2147483648])) \<le>s kint32max \<and>
   Compute (TransitFunctor_CPU example_delta) example_alloc
     (example_input [4] [2147483648] [2147483648]) =
    \<lparr>status = InvalidArgument ''Too many elements in tensor'',
     output0 = Some \<lparr>shape = [2147483648], data = 30\<rparr>, memory = example_heap\<rparr>"
proof -
  let ?inp = "example_input [4] [2147483648] [2147483648]"
  have h: "\<not> NumElements (input1 ?inp) \<le>s kint32max"
    by (simp add: NumElements_def example_input_def kint32max_def)
  show ?thesis
    using Compute_oversized [OF h, of "TransitFunctor_CPU example_delta" example_alloc] h
    by (simp add: NumElements_def example_input_def example_alloc_def)
qed

subsection \<open>The shape of the output\<close>

text \<open>
  Claim C5. After every successful call (status \<^verbatim>\<open>OK\<close>) output 0 is allocated and has
  exactly the shape of the input \<open>z\<close>, hence the same number of elements.
\<close>

theorem Compute_output_shape:
  assumes "status (Compute F alloc inp) = OK"
  shows "map_option shape (output0 (Compute F alloc inp)) = Some (shape (input1 inp)) \<and>
    map_option NumElements (output0 (Compute F alloc inp)) = Some (NumElements (input1 inp))"
  using assms
  by (simp add: Compute_def Let_def NumElements_def split: prod.splits if_splits)

theorem Compute_output_shape_witness:
  "status (Compute (TransitFunctor_CPU example_delta) example_alloc (example_input [4] [2, 3] [2, 3])) = OK \<and>
   map_option shape (output0 (Compute (TransitFunctor_CPU example_delta) example_alloc
     (example_input [4] [2, 3] [2, 3]))) = Some [2, 3] \<and>
   map_option NumElements (output0 (Compute (TransitFunctor_CPU example_delta) example_alloc
     (example_input [4] [2, 3] [2, 3]))) = Some 6"
proof -
  let ?inp = "example_input [4] [2, 3] [2, 3]"
  have h: "status (Compute (TransitFunctor_CPU example_delta) example_alloc ?inp) = OK"
    by (simp add: Compute_def NumElements_def example_input_def example_alloc_def kint32max_def)
  show ?thesis
    using Compute_output_shape [OF h] h
    by (simp add: NumElements_def example_input_def)
qed

subsection \<open>The grid size is narrowed unchecked\<close>

text \<open>
  Claim C10. The 32-bit ceiling is enforced on \<^verbatim>\<open>size\<close> only, never on \<^verbatim>\<open>grid_size\<close>. For a
  call with \<^verbatim>\<open>size\<close> within the ceiling that has passed the two earlier checks (equal
  numbers of elements of \<open>z\<close> and \<open>r\<close>, output allocated), none of which reads the grid,
  the functor is invoked whatever the number of elements of the grid, with the 64-bit
  \<^verbatim>\<open>grid_size\<close> narrowed to 32 bits by a cast; and the status of a call is the same for
  every grid tensor. In the instance below a grid of \<open>2^31\<close> elements reaches the functor
  as the \<^verbatim>\<open>int\<close> of value \<open>- 2^31\<close>.
\<close>

theorem Compute_grid_size_unchecked:
  assumes "NumElements (input2 inp) = NumElements (input1 inp)"
    and "alloc (shape (input1 inp)) = (OK, buf)"
    and "NumElements (input1 inp) \<le>s kint32max"
  shows "Compute F alloc inp =
      \<lparr>status = OK, output0 = Some \<lparr>shape = shape (input1 inp), data = buf\<rparr>,
       memory = F (scast (NumElements (input0 inp))) (data (input0 inp))
                  (scast (NumElements (input1 inp))) (data (input1 inp)) (data (input2 inp)) buf
                  (mem inp)\<rparr> \<and>
    status (Compute F alloc (inp\<lparr>input0 := grid_tensor\<rparr>)) = status (Compute F alloc inp)"
  using Compute_invoked [where inp = inp and alloc = alloc and F = F, OF assms] assms
  by (simp add: Compute_status)

theorem Compute_grid_size_unchecked_witness:
  "NumElements (input2 (example_input [2147483648] [3] [3])) =
     NumElements (input1 (example_input [2147483648] [3] [3])) \<and>
   example_alloc (shape (input1 (example_input [2147483648] [3] [3]))) = (OK, 30) \<and>
   NumElements (input1 (example_input [2147483648] [3] [3])) \<le>s kint32max \<and>
   NumElements (input0 (example_input [2147483648] [3] [3])) = 2147483648 \<and>
   Compute (TransitFunctor_CPU example_delta) example_alloc (example_input [2147483648] [3] [3]) =
     \<lparr>status = OK, output0 = Some \<lparr>shape = [3], data = 30\<rparr>,
      memory = TransitFunctor_CPU example_delta 2147483648 0 3 10 20 30 example_heap\<rparr> \<and>
   sint (2147483648 :: int32) = - 2147483648"
proof -
  let ?inp = "example_input [2147483648] [3] [3]"
  have h: "NumElements (input2 ?inp) = NumElements (input1 ?inp)"
    "example_alloc (shape (input1 ?inp)) = (OK, 30)" "NumElements (input1 ?inp) \<le>s kint32max"
    by (simp_all add: NumElements_def example_input_def example_alloc_def kint32max_def)
  show ?thesis
    using Compute_grid_size_unchecked [where inp = ?inp and alloc = example_alloc
        and F = "TransitFunctor_CPU example_delta", OF h] h
    by (simp add: NumElements_def example_input_def)
qed

end
